theory Spec2Isabelle
  imports Main "HOL-Library.Word"
begin

unbundle bit_operations_syntax

section \<open>Machine types and constants of main.c\<close>

text \<open>
  \<^verbatim>\<open>cy_rslt_t\<close> is \<^verbatim>\<open>uint32_t\<close>. A C \<^verbatim>\<open>int\<close> handed back by a command handler is
  modelled as a mathematical integer; where the source converts a \<^verbatim>\<open>cy_rslt_t\<close> to
  \<^verbatim>\<open>int\<close> (\<^verbatim>\<open>return result;\<close>) the 32 bits are kept and read as two's complement
  (\<open>sint\<close>).
\<close>

type_synonym cy_rslt_t = "32 word"

text \<open>
  Modelled from the spec: the success code of the wireless connection service
  (\<^verbatim>\<open>CY_RSLT_SUCCESS\<close>, declared in a header that is not part of the sources); the spec
  gives it as 0 ("0 on success").
\<close>

definition CY_RSLT_SUCCESS :: cy_rslt_t where
  "CY_RSLT_SUCCESS = 0"

text \<open>\<^verbatim>\<open>#define CY_RSLT_ERROR ( -1 )\<close>, stored in a \<^verbatim>\<open>cy_rslt_t\<close>.\<close>

definition CY_RSLT_ERROR :: cy_rslt_t where
  "CY_RSLT_ERROR = - 1"

definition MAX_WIFI_CONN_RETRIES :: nat where
  "MAX_WIFI_CONN_RETRIES = 15"

definition IP_STR_LEN :: nat where
  "IP_STR_LEN = 16"

definition WDT_TIMEOUT_MS :: nat where
  "WDT_TIMEOUT_MS = 4000"

definition WIFI_SSID :: string where
  "WIFI_SSID = ''''"

definition WIFI_KEY :: string where
  "WIFI_KEY = ''''"

section \<open>Formatting: what printf and sprintf produce\<close>

text \<open>The conversion \<^verbatim>\<open>%lu\<close>: decimal digits, most significant first, no padding.\<close>

definition digit_char :: "nat \<Rightarrow> char" where
  "digit_char d = ''0123456789'' ! d"

fun fmt_lu :: "nat \<Rightarrow> string" where
  "fmt_lu n = (if n < 10 then [digit_char n] else fmt_lu (n div 10) @ [digit_char (n mod 10)])"

declare fmt_lu.simps [simp del]

text \<open>The conversion \<^verbatim>\<open>0x%08" PRIx32 "\<close>: eight lower-case hexadecimal digits after \<^verbatim>\<open>0x\<close>.\<close>

definition hex_char :: "nat \<Rightarrow> char" where
  "hex_char d = ''0123456789abcdef'' ! d"

definition fmt_08x :: "32 word \<Rightarrow> string" where
  "fmt_08x w = map (\<lambda>i. hex_char (unat (drop_bit (4 * i) w AND 0xF))) [7, 6, 5, 4, 3, 2, 1, 0]"

text \<open>
  \<^verbatim>\<open>get_ip_string\<close>: the characters \<^verbatim>\<open>sprintf\<close> stores in \<^verbatim>\<open>buffer\<close>, without the
  terminating NUL that follows them. \<^verbatim>\<open>unsigned long\<close> holds every \<^verbatim>\<open>uint32_t\<close> value,
  so the cast changes nothing; \<open>drop_bit\<close> is \<^verbatim>\<open>>>\<close>.
\<close>

definition get_ip_string :: "32 word \<Rightarrow> string" where
  "get_ip_string ip =
     fmt_lu (unat (ip AND 0xFF)) @ ''.'' @
     fmt_lu (unat (drop_bit 8 ip AND 0xFF)) @ ''.'' @
     fmt_lu (unat (drop_bit 16 ip AND 0xFF)) @ ''.'' @
     fmt_lu (unat (drop_bit 24 ip AND 0xFF))"

section \<open>Data of the wireless connection service, as main.c uses it\<close>

text \<open>
  The enumerations and structures below are declared in headers of the connection manager
  and of the driver, which are not part of the sources. Only the members that main.c names
  are modelled, together with the member an all-zero object denotes (what \<^verbatim>\<open>memset\<close> with 0
  leaves in a field).
\<close>

datatype cy_wcm_itwt_profile_t =
  CY_WCM_ITWT_PROFILE_NONE | CY_WCM_ITWT_PROFILE_ACTIVE | CY_WCM_ITWT_PROFILE_IDLE

datatype cy_wcm_security_t = CY_WCM_SECURITY_OPEN | CY_WCM_SECURITY_WPA2_AES_PSK

datatype cy_wcm_wifi_band_t = CY_WCM_WIFI_BAND_ANY

datatype cy_wcm_interface_t = CY_WCM_INTERFACE_TYPE_STA

definition WIFI_SECURITY :: cy_wcm_security_t where
  "WIFI_SECURITY = CY_WCM_SECURITY_WPA2_AES_PSK"

definition WIFI_BAND :: cy_wcm_wifi_band_t where
  "WIFI_BAND = CY_WCM_WIFI_BAND_ANY"

record cy_wcm_connect_params_t =
  ap_credentials_SSID :: string
  ap_credentials_password :: string
  ap_credentials_security :: cy_wcm_security_t
  band :: cy_wcm_wifi_band_t
  itwt_profile :: cy_wcm_itwt_profile_t

text \<open>\<^verbatim>\<open>memset(&conn_params, 0, sizeof(cy_wcm_connect_params_t))\<close>\<close>

definition zeroed_conn_params :: cy_wcm_connect_params_t where
  "zeroed_conn_params =
     \<lparr>ap_credentials_SSID = [], ap_credentials_password = [],
      ap_credentials_security = CY_WCM_SECURITY_OPEN, band = CY_WCM_WIFI_BAND_ANY,
      itwt_profile = CY_WCM_ITWT_PROFILE_NONE\<rparr>"

record whd_twt_teardown_params_t =
  negotiation_type :: "8 word"
  flow_id :: "8 word"
  bcast_twt_id :: "8 word"
  teardown_all_twt :: "8 word"

text \<open>
  Modelled from the spec: the enumerator \<^verbatim>\<open>TWT_CTRL_NEGO_TYPE_0\<close> of the driver header
  (not part of the sources); the spec gives the negotiation type of a teardown request as 0.
\<close>

definition TWT_CTRL_NEGO_TYPE_0 :: "8 word" where
  "TWT_CTRL_NEGO_TYPE_0 = 0"

record cy_command_console_cfg_t =
  line_len :: nat
  history_len :: nat
  delimiter_string :: string
  params_num :: nat

definition CONSOLE_COMMAND_MAX_PARAMS :: nat where
  "CONSOLE_COMMAND_MAX_PARAMS = 32"

definition CONSOLE_COMMAND_MAX_LENGTH :: nat where
  "CONSOLE_COMMAND_MAX_LENGTH = 85"

definition CONSOLE_COMMAND_HISTORY_LENGTH :: nat where
  "CONSOLE_COMMAND_HISTORY_LENGTH = 10"

datatype cy_timer_trigger_type_t = CY_TIMER_TYPE_PERIODIC

datatype cy_timer_callback_t = Callback_wdt_handler

datatype command_handler = Handler_itwt_setup | Handler_itwt_teardown

text \<open>An entry of a command table: name, handler and declared minimum argument count.\<close>

type_synonym cy_command_console_cmd_t = "string \<times> command_handler \<times> nat"

definition itwt_commands_table :: "cy_command_console_cmd_t list" where
  "itwt_commands_table =
     [(''itwt_setup'', Handler_itwt_setup, 1), (''itwt_teardown'', Handler_itwt_teardown, 0)]"

section \<open>The outside world: calls made and answers received\<close>

text \<open>
  Every call main.c makes to a function outside it is recorded, in order, in the trace of
  the state, with the arguments that matter. \<^verbatim>\<open>printf\<close> records the text printed.
\<close>

datatype event =
    Printf string
  | Cy_wcm_init cy_wcm_interface_t
  | Cy_wcm_is_connected_to_ap
  | Cy_wcm_disconnect_ap
  | Cy_wcm_connect_ap cy_wcm_connect_params_t
  | Cy_rtos_delay_milliseconds nat
  | Whd_wifi_twt_teardown cy_wcm_interface_t whd_twt_teardown_params_t
  | Thread_ap_watchdog_ConfigureTime nat
  | Cy_command_console_init cy_command_console_cfg_t
  | Wifi_utility_init
  | Iperf_utility_init cy_wcm_interface_t
  | Cy_command_console_add_table "cy_command_console_cmd_t list"
  | Cy_rtos_init_timer cy_timer_trigger_type_t cy_timer_callback_t nat
  | Cy_rtos_start_timer nat

text \<open>
  What the external functions answer. \<open>connect_ap env n\<close> is the outcome of the associate
  call made when \<^verbatim>\<open>retry_count\<close> is \<open>n\<close>, that is of attempt number \<open>n + 1\<close> of one run of
  \<^verbatim>\<open>ConnectWifi\<close>: the result code and the address stored in \<^verbatim>\<open>ip_addr.ip.v4\<close> (read
  only after a success).
\<close>

record services =
  wcm_init :: cy_rslt_t
  is_connected_to_ap :: bool
  disconnect_ap :: cy_rslt_t
  connect_ap :: "nat \<Rightarrow> cy_rslt_t \<times> 32 word"
  twt_teardown :: cy_rslt_t
  command_console_init :: cy_rslt_t
  wifi_utility_init :: cy_rslt_t
  command_console_add_table :: cy_rslt_t

text \<open>The globals of main.c that the modelled functions touch, and the trace.\<close>

record state =
  conn_params :: cy_wcm_connect_params_t
  wcm_config_interface :: cy_wcm_interface_t
  trace :: "event list"

definition emit :: "event \<Rightarrow> state \<Rightarrow> state" where
  "emit e st = st\<lparr>trace := trace st @ [e]\<rparr>"

section \<open>ConnectWifi\<close>

text \<open>
  The body of \<^verbatim>\<open>while (1)\<close>, with \<^verbatim>\<open>retry_count\<close> as it stands when the body is entered.
  The counter starts at 0 and stops at 15, so a natural number holds it.
\<close>

function ConnectWifi_loop ::
  "services \<Rightarrow> cy_wcm_itwt_profile_t \<Rightarrow> nat \<Rightarrow> state \<Rightarrow> cy_rslt_t \<times> state" where
  "ConnectWifi_loop env profile retry_count st =
     (let st1 = st\<lparr>conn_params := (conn_params st)
                  \<lparr>ap_credentials_SSID := WIFI_SSID, ap_credentials_password := WIFI_KEY,
                   ap_credentials_security := WIFI_SECURITY, band := WIFI_BAND,
                   itwt_profile := profile\<rparr>\<rparr>;
          result = fst (connect_ap env retry_count);
          ip_addr = snd (connect_ap env retry_count);
          st2 = emit (Cy_wcm_connect_ap (conn_params st1)) st1;
          st3 = emit (Cy_rtos_delay_milliseconds 500) st2
      in if result \<noteq> CY_RSLT_SUCCESS then
           (if retry_count + 1 \<ge> MAX_WIFI_CONN_RETRIES then
              (CY_RSLT_ERROR, emit (Printf ''Exceeded max WiFi connection attempts\<newline>'') st3)
            else
              ConnectWifi_loop env profile (retry_count + 1)
                (emit (Printf ''Connection to WiFi network failed. Retrying...\<newline>'') st3))
         else
           (CY_RSLT_SUCCESS,
            emit (Printf (''IP Address '' @ get_ip_string ip_addr @ '' assigned\<newline>''))
              (emit (Printf (''Successfully connected to Wi-Fi network '' @ [CHR 0x27] @
                             WIFI_SSID @ [CHR 0x27] @ ''.\<newline>'')) st3)))"
  by pat_completeness auto
termination
  by (relation "measure (\<lambda>(env, profile, retry_count, st). MAX_WIFI_CONN_RETRIES - retry_count)")
     auto

declare ConnectWifi_loop.simps [simp del]

definition ConnectWifi :: "services \<Rightarrow> cy_wcm_itwt_profile_t \<Rightarrow> state \<Rightarrow> cy_rslt_t \<times> state" where
  "ConnectWifi env profile st =
     (let st1 = st\<lparr>conn_params := zeroed_conn_params\<rparr>;
          st2 = emit (Printf (''Connecting to Wi-Fi Network: '' @ WIFI_SSID @ ''\<newline>'')) st1
      in ConnectWifi_loop env profile 0 st2)"

section \<open>The command handlers\<close>

text \<open>
  \<^verbatim>\<open>argc\<close> and \<^verbatim>\<open>argv\<close> are kept apart, as the handler receives them; \<^verbatim>\<open>argv\<close> is the
  list of the tokens it holds, the command name first. Reading \<^verbatim>\<open>argv[1]\<close> where the
  list has no such element is a fault of the model. The parameter \<^verbatim>\<open>data\<close> is used by
  neither handler and is left out.
\<close>

datatype fault = Argv_read_out_of_bounds

text \<open>Lines 195 to 209 of \<^verbatim>\<open>itwt_setup\<close>: the profile token selects the reconnect.\<close>

definition itwt_setup_profile :: "services \<Rightarrow> string list \<Rightarrow> state \<Rightarrow> (fault + int) \<times> state" where
  "itwt_setup_profile env argv st =
     (if length argv \<le> 1 then (Inl Argv_read_out_of_bounds, st)
      else if argv ! 1 = ''idle'' then
        (let (result, st') = ConnectWifi env CY_WCM_ITWT_PROFILE_IDLE st in (Inr (sint result), st'))
      else if argv ! 1 = ''active'' then
        (let (result, st') = ConnectWifi env CY_WCM_ITWT_PROFILE_ACTIVE st in (Inr (sint result), st'))
      else (Inr (- 1), emit (Printf ''Invalid Profile\<newline>'') st))"

definition itwt_setup :: "services \<Rightarrow> int \<Rightarrow> string list \<Rightarrow> state \<Rightarrow> (fault + int) \<times> state" where
  "itwt_setup env argc argv st =
     (if argc < 1 then
        (Inr (- 1),
         emit (Printf ''Insufficient number of arguments. Command format: itwt_setup <profile>\<newline>'') st)
      else
        (let st1 = emit Cy_wcm_is_connected_to_ap st in
         if is_connected_to_ap env then
           (let st2 = emit (Printf ''Already connected. Disconnecting from AP!!\<newline>'') st1;
                result = disconnect_ap env;
                st3 = emit Cy_wcm_disconnect_ap st2
            in if result \<noteq> CY_RSLT_SUCCESS then
                 (Inr (sint result),
                  emit (Printf (''Failed to disconnect from AP! Error code: 0x'' @ fmt_08x result @
                                ''\<newline>'')) st3)
               else itwt_setup_profile env argv st3)
         else itwt_setup_profile env argv st1))"

definition itwt_teardown :: "services \<Rightarrow> int \<Rightarrow> string list \<Rightarrow> state \<Rightarrow> int \<times> state" where
  "itwt_teardown env argc argv st =
     (let twt_params = \<lparr>negotiation_type = TWT_CTRL_NEGO_TYPE_0, flow_id = 0, bcast_twt_id = 0,
                        teardown_all_twt = 0\<rparr>;
          result = twt_teardown env;
          st1 = emit (Whd_wifi_twt_teardown CY_WCM_INTERFACE_TYPE_STA twt_params) st
      in (sint result,
          if result \<noteq> CY_RSLT_SUCCESS then
            emit (Printf (''TWT session teardown failed! Error code: 0x'' @ fmt_08x result @
                          ''\<newline>'')) st1
          else st1))"

section \<open>The liveness timer and the console task\<close>

definition wdt_handler :: "nat \<Rightarrow> state \<Rightarrow> state" where
  "wdt_handler arg st = emit (Thread_ap_watchdog_ConfigureTime 5) st"

definition command_console_add_command :: "services \<Rightarrow> state \<Rightarrow> cy_rslt_t \<times> state" where
  "command_console_add_command env st =
     (let console_cfg = \<lparr>line_len = CONSOLE_COMMAND_MAX_LENGTH,
                         history_len = CONSOLE_COMMAND_HISTORY_LENGTH,
                         delimiter_string = '' '', params_num = CONSOLE_COMMAND_MAX_PARAMS\<rparr>;
          st1 = emit (Cy_command_console_init console_cfg) st
      in if command_console_init env \<noteq> CY_RSLT_SUCCESS then
           (CY_RSLT_ERROR,
            emit (Printf (''Error in initializing command console library : 0x'' @
                          fmt_08x (command_console_init env) @ ''\<newline>'')) st1)
         else
           (let st2 = emit Wifi_utility_init st1 in
            if wifi_utility_init env \<noteq> CY_RSLT_SUCCESS then
              (CY_RSLT_ERROR,
               emit (Printf (''Error in initializing command console library : 0x'' @
                             fmt_08x (wifi_utility_init env) @ ''\<newline>'')) st2)
            else
              (let st3 = emit (Iperf_utility_init (wcm_config_interface st2)) st2;
                   st4 = emit (Cy_command_console_add_table itwt_commands_table) st3
               in if command_console_add_table env \<noteq> CY_RSLT_SUCCESS then
                    (CY_RSLT_ERROR,
                     emit (Printf (''Error in adding command console table : 0x'' @
                                   fmt_08x (command_console_add_table env) @ ''\<newline>'')) st4)
                  else (CY_RSLT_SUCCESS, st4))))"

text \<open>The final \<^verbatim>\<open>while(1)\<close> of the console task, gone round \<open>n\<close> times.\<close>

fun idle_loop :: "nat \<Rightarrow> state \<Rightarrow> state" where
  "idle_loop 0 st = st"
| "idle_loop (Suc n) st = idle_loop n (emit (Cy_rtos_delay_milliseconds 500) st)"

text \<open>
  \<^verbatim>\<open>console_task\<close> returns only when the connection manager fails to initialise;
  otherwise it ends in a loop that never exits. The result is whether the task has returned,
  and the state reached: at the return, or after \<open>n\<close> rounds of the final loop.
\<close>

definition console_task :: "services \<Rightarrow> nat \<Rightarrow> state \<Rightarrow> bool \<times> state" where
  "console_task env n st =
     (let st1 = st\<lparr>wcm_config_interface := CY_WCM_INTERFACE_TYPE_STA\<rparr>;
          st2 = emit (Cy_wcm_init (wcm_config_interface st1)) st1
      in if wcm_init env \<noteq> CY_RSLT_SUCCESS then
           (True,
            emit (Printf (''Wi-Fi Connection Manager initialization failed! Error code: 0x'' @
                          fmt_08x (wcm_init env) @ ''\<newline>'')) st2)
         else
           (let st3 = emit (Printf ''Wi-Fi Connection Manager initialized.\<newline>'') st2;
                st4 = snd (ConnectWifi env CY_WCM_ITWT_PROFILE_NONE st3);
                st5 = snd (command_console_add_command env st4);
                st6 = emit (Cy_rtos_init_timer CY_TIMER_TYPE_PERIODIC Callback_wdt_handler 0) st5;
                st7 = emit (Cy_rtos_start_timer WDT_TIMEOUT_MS) st6;
                st8 = emit (Thread_ap_watchdog_ConfigureTime 5) st7
            in (False, idle_loop n st8)))"

section \<open>The command dispatcher\<close>

definition run_handler ::
  "services \<Rightarrow> command_handler \<Rightarrow> int \<Rightarrow> string list \<Rightarrow> state \<Rightarrow> (fault + int) \<times> state" where
  "run_handler env h argc argv st =
     (case h of
        Handler_itwt_setup \<Rightarrow> itwt_setup env argc argv st
      | Handler_itwt_teardown \<Rightarrow>
          (let (result, st') = itwt_teardown env argc argv st in (Inr result, st')))"

text \<open>
  Modelled from the spec: the dispatcher of the command console, whose code is not part of
  the sources (main.c only hands it the table). The spec: it "maintains a mapping from
  command name to handler plus declared minimum argument count" and must "reject with a
  usage error before invoking any handler if the supplied argument count is below the
  declared minimum"; the status for insufficient arguments is -1. A line is its tokens, the
  command name first, and the supplied arguments are the tokens after the name. The
  handler gets all the tokens and their number, since main.c reads the profile from
  \<^verbatim>\<open>argv[1]\<close>. The spec says nothing on an empty line or an unknown name: no result
  (\<open>None\<close>). What the console itself prints is left out.
\<close>

definition dispatch ::
  "services \<Rightarrow> cy_command_console_cmd_t list \<Rightarrow> string list \<Rightarrow> state \<Rightarrow>
     ((fault + int) \<times> state) option" where
  "dispatch env table tokens st =
     (case tokens of
        [] \<Rightarrow> None
      | name # args \<Rightarrow>
          (case find (\<lambda>entry. fst entry = name) table of
             None \<Rightarrow> None
           | Some entry \<Rightarrow>
               Some (if length args < snd (snd entry) then (Inr (- 1), st)
                     else run_handler env (fst (snd entry)) (int (length tokens)) tokens st)))"

section \<open>Reading traces\<close>

text \<open>The events a run added to the trace it started from.\<close>

definition new_events :: "state \<Rightarrow> state \<Rightarrow> event list" where
  "new_events st st' = drop (length (trace st)) (trace st')"

fun is_connect_call :: "event \<Rightarrow> bool" where
  "is_connect_call (Cy_wcm_connect_ap p) = True"
| "is_connect_call e = False"

fun is_disconnect_call :: "event \<Rightarrow> bool" where
  "is_disconnect_call Cy_wcm_disconnect_ap = True"
| "is_disconnect_call e = False"

fun is_delay :: "event \<Rightarrow> bool" where
  "is_delay (Cy_rtos_delay_milliseconds ms) = True"
| "is_delay e = False"

fun is_teardown_call :: "event \<Rightarrow> bool" where
  "is_teardown_call (Whd_wifi_twt_teardown ifc p) = True"
| "is_teardown_call e = False"

definition associate_calls :: "event list \<Rightarrow> nat" where
  "associate_calls tr = length (filter is_connect_call tr)"

definition disconnect_calls :: "event list \<Rightarrow> nat" where
  "disconnect_calls tr = length (filter is_disconnect_call tr)"

definition teardown_calls :: "event list \<Rightarrow> nat" where
  "teardown_calls tr = length (filter is_teardown_call tr)"

text \<open>Attempt number \<open>n + 1\<close> of a run succeeds.\<close>

definition succeeds :: "services \<Rightarrow> nat \<Rightarrow> bool" where
  "succeeds env n = (fst (connect_ap env n) = CY_RSLT_SUCCESS)"

text \<open>Every associate call is directly followed by the delay of 500 ms.\<close>

fun delay_after_each_connect :: "event list \<Rightarrow> bool" where
  "delay_after_each_connect [] = True"
| "delay_after_each_connect (e # es) =
     ((\<not> is_connect_call e \<or> (es \<noteq> [] \<and> hd es = Cy_rtos_delay_milliseconds 500)) \<and>
      delay_after_each_connect es)"

text \<open>
  Every delay directly follows an associate call; \<open>prev\<close> tells whether the event before
  the list was one.
\<close>

fun connect_before_each_delay :: "bool \<Rightarrow> event list \<Rightarrow> bool" where
  "connect_before_each_delay prev [] = True"
| "connect_before_each_delay prev (e # es) =
     ((\<not> is_delay e \<or> prev) \<and> connect_before_each_delay (is_connect_call e) es)"

text \<open>No delay before the first associate call, and none after the last one.\<close>

definition no_delay_before_first_connect :: "event list \<Rightarrow> bool" where
  "no_delay_before_first_connect tr =
     list_all (\<lambda>e. \<not> is_delay e) (takeWhile (\<lambda>e. \<not> is_connect_call e) tr)"

definition no_delay_after_last_connect :: "event list \<Rightarrow> bool" where
  "no_delay_after_last_connect tr =
     list_all (\<lambda>e. \<not> is_delay e) (takeWhile (\<lambda>e. \<not> is_connect_call e) (rev tr))"

section \<open>The trace of ConnectWifi in closed form\<close>

text \<open>The parameters every associate call of a run carries.\<close>

definition attempt_params :: "cy_wcm_itwt_profile_t \<Rightarrow> cy_wcm_connect_params_t" where
  "attempt_params profile =
     \<lparr>ap_credentials_SSID = WIFI_SSID, ap_credentials_password = WIFI_KEY,
      ap_credentials_security = WIFI_SECURITY, band = WIFI_BAND, itwt_profile = profile\<rparr>"

definition retry_block :: "cy_wcm_itwt_profile_t \<Rightarrow> event list" where
  "retry_block profile =
     [Cy_wcm_connect_ap (attempt_params profile), Cy_rtos_delay_milliseconds 500,
      Printf ''Connection to WiFi network failed. Retrying...\<newline>'']"

definition exhausted_block :: "cy_wcm_itwt_profile_t \<Rightarrow> event list" where
  "exhausted_block profile =
     [Cy_wcm_connect_ap (attempt_params profile), Cy_rtos_delay_milliseconds 500,
      Printf ''Exceeded max WiFi connection attempts\<newline>'']"

definition success_block :: "cy_wcm_itwt_profile_t \<Rightarrow> 32 word \<Rightarrow> event list" where
  "success_block profile ip =
     [Cy_wcm_connect_ap (attempt_params profile), Cy_rtos_delay_milliseconds 500,
      Printf (''Successfully connected to Wi-Fi network '' @ [CHR 0x27] @ WIFI_SSID @
              [CHR 0x27] @ ''.\<newline>''),
      Printf (''IP Address '' @ get_ip_string ip @ '' assigned\<newline>'')]"

definition first_success :: "services \<Rightarrow> nat option" where
  "first_success env = find (succeeds env) [0..<MAX_WIFI_CONN_RETRIES]"

definition ConnectWifi_events :: "services \<Rightarrow> cy_wcm_itwt_profile_t \<Rightarrow> event list" where
  "ConnectWifi_events env profile =
     Printf (''Connecting to Wi-Fi Network: '' @ WIFI_SSID @ ''\<newline>'') #
     (case first_success env of
        None \<Rightarrow> concat (replicate (MAX_WIFI_CONN_RETRIES - 1) (retry_block profile)) @
                exhausted_block profile
      | Some k \<Rightarrow> concat (replicate k (retry_block profile)) @
                  success_block profile (snd (connect_ap env k)))"

definition ConnectWifi_result :: "services \<Rightarrow> cy_rslt_t" where
  "ConnectWifi_result env =
     (case first_success env of None \<Rightarrow> CY_RSLT_ERROR | Some k \<Rightarrow> CY_RSLT_SUCCESS)"

section \<open>Reading a dotted-decimal address back\<close>

fun split_dots :: "string \<Rightarrow> string list" where
  "split_dots [] = [[]]"
| "split_dots (c # cs) =
     (if c = CHR ''.'' then [] # split_dots cs
      else (c # hd (split_dots cs)) # tl (split_dots cs))"

definition is_digit :: "char \<Rightarrow> bool" where
  "is_digit c = (c \<in> set ''0123456789'')"

definition digit_value :: "char \<Rightarrow> nat" where
  "digit_value c = of_char c - 48"

definition dec_value :: "string \<Rightarrow> nat" where
  "dec_value s = foldl (\<lambda>a c. 10 * a + digit_value c) 0 s"

definition valid_field :: "string \<Rightarrow> bool" where
  "valid_field f = (f \<noteq> [] \<and> list_all is_digit f \<and> dec_value f \<le> 255)"

definition is_dotted_quad :: "string \<Rightarrow> bool" where
  "is_dotted_quad s = (length (split_dots s) = 4 \<and> list_all valid_field (split_dots s))"

section \<open>Sample worlds\<close>

definition st0 :: state where
  "st0 = \<lparr>conn_params = zeroed_conn_params, wcm_config_interface = CY_WCM_INTERFACE_TYPE_STA,
          trace = []\<rparr>"

text \<open>A station that is connected, whose access point then refuses every associate call.\<close>

definition env_refused :: services where
  "env_refused =
     \<lparr>wcm_init = 0, is_connected_to_ap = True, disconnect_ap = 0,
      connect_ap = (\<lambda>n. (0x1234, 0)), twt_teardown = 0x5678,
      command_console_init = 0, wifi_utility_init = 0, command_console_add_table = 0\<rparr>"

text \<open>A station that is not connected; the third associate call succeeds with 192.168.1.10.\<close>

definition env_third :: services where
  "env_third =
     \<lparr>wcm_init = 0, is_connected_to_ap = False, disconnect_ap = 0,
      connect_ap = (\<lambda>n. if n = 2 then (0, 0x0A01A8C0) else (0x1234, 0)), twt_teardown = 0,
      command_console_init = 0, wifi_utility_init = 0, command_console_add_table = 0\<rparr>"

text \<open>A connected station whose disconnect call fails with code 0x2A.\<close>

definition env_stuck :: services where
  "env_stuck =
     \<lparr>wcm_init = 0, is_connected_to_ap = True, disconnect_ap = 0x2A,
      connect_ap = (\<lambda>n. (0, 0x0A01A8C0)), twt_teardown = 0,
      command_console_init = 0, wifi_utility_init = 0, command_console_add_table = 0\<rparr>"

section \<open>Properties of the address formatter\<close>

lemma unat_byte: "unat (drop_bit n (w :: 32 word) AND 0xFF) = unat w div 2 ^ n mod 256"
proof -
  have m: "(0xFF :: 32 word) = mask 8" by (simp add: mask_eq_exp_minus_1)
  have "unat (drop_bit n w AND mask 8) = unat (take_bit 8 (drop_bit n w))"
    by (simp only: take_bit_eq_mask)
  also have "\<dots> = take_bit 8 (unat (drop_bit n w))"
    by (simp add: unsigned_take_bit_eq)
  also have "\<dots> = unat w div 2 ^ n mod 256"
    by (simp only: unat_drop_bit_eq) (simp add: take_bit_eq_mod drop_bit_eq_div)
  finally show ?thesis by (simp only: m)
qed

lemma unat_and_255: "unat ((w :: 32 word) AND 0xFF) \<le> 255"
proof -
  have "unat (w AND 0xFF) = unat w mod 256"
    using unat_byte [of 0 w] by simp
  moreover have "unat w mod 256 < 256" by simp
  ultimately show ?thesis by simp
qed

lemma length_fmt_lu: "n < 1000 \<Longrightarrow> length (fmt_lu n) \<le> 3"
proof -
  assume n: "n < 1000"
  have small: "length (fmt_lu m) = 1" if "m < 10" for m
    using that by (simp add: fmt_lu.simps [of m])
  have mid: "length (fmt_lu m) \<le> 2" if "m < 100" for m
  proof (cases "m < 10")
    case True
    then show ?thesis by (simp add: small)
  next
    case False
    have "m div 10 < 10" using that by simp
    then show ?thesis using False by (simp add: fmt_lu.simps [of m] small)
  qed
  show ?thesis
  proof (cases "n < 10")
    case True
    then show ?thesis by (simp add: small)
  next
    case False
    have "n div 10 < 100" using n by simp
    then have "length (fmt_lu (n div 10)) \<le> 2" by (rule mid)
    then show ?thesis using False by (simp add: fmt_lu.simps [of n])
  qed
qed

lemma length_fmt_lu_pos: "0 < length (fmt_lu n)"
  by (subst fmt_lu.simps) simp

text \<open>
  C10. For every 32-bit address the string \<^verbatim>\<open>get_ip_string\<close> writes has at most 15
  characters, so with its terminating NUL it fits the \<^verbatim>\<open>IP_STR_LEN\<close> = 16 bytes of the
  buffer \<^verbatim>\<open>ipstr\<close> that \<^verbatim>\<open>ConnectWifi\<close> passes.
\<close>

theorem get_ip_string_fits_buffer:
  "length (get_ip_string ip) \<le> 15 \<and> length (get_ip_string ip) + 1 \<le> IP_STR_LEN \<and> IP_STR_LEN = 16"
proof -
  have f: "length (fmt_lu (unat (w AND 0xFF))) \<le> 3" for w :: "32 word"
    using unat_and_255 [of w] by (intro length_fmt_lu) simp
  have "length (get_ip_string ip) \<le> 15"
    using f [of ip] f [of "drop_bit 8 ip"] f [of "drop_bit 16 ip"] f [of "drop_bit 24 ip"]
    by (simp add: get_ip_string_def)
  then show ?thesis by (simp add: IP_STR_LEN_def)
qed

section \<open>ConnectWifi runs as its closed form says\<close>

lemma attempt_params_update:
  "cp\<lparr>ap_credentials_SSID := WIFI_SSID, ap_credentials_password := WIFI_KEY,
      ap_credentials_security := WIFI_SECURITY, band := WIFI_BAND,
      itwt_profile := profile\<rparr> = attempt_params profile"
  by (cases cp) (simp add: attempt_params_def)

lemma loop_step_fail:
  assumes "\<not> succeeds env rc" "rc + 1 < MAX_WIFI_CONN_RETRIES"
  shows "ConnectWifi_loop env p rc st =
         ConnectWifi_loop env p (rc + 1)
           (st\<lparr>conn_params := attempt_params p, trace := trace st @ retry_block p\<rparr>)"
  using assms
  by (subst ConnectWifi_loop.simps)
     (simp add: succeeds_def Let_def emit_def attempt_params_update retry_block_def)

lemma loop_step_exhausted:
  assumes "\<not> succeeds env rc" "MAX_WIFI_CONN_RETRIES \<le> rc + 1"
  shows "ConnectWifi_loop env p rc st =
         (CY_RSLT_ERROR, st\<lparr>conn_params := attempt_params p, trace := trace st @ exhausted_block p\<rparr>)"
  using assms
  by (subst ConnectWifi_loop.simps)
     (simp add: succeeds_def Let_def emit_def attempt_params_update exhausted_block_def)

lemma loop_step_success:
  assumes "succeeds env rc"
  shows "ConnectWifi_loop env p rc st =
         (CY_RSLT_SUCCESS, st\<lparr>conn_params := attempt_params p,
            trace := trace st @ success_block p (snd (connect_ap env rc))\<rparr>)"
  using assms
  by (subst ConnectWifi_loop.simps)
     (simp add: succeeds_def Let_def emit_def attempt_params_update success_block_def)

lemma loop_all_fail:
  assumes "\<forall>i. rc \<le> i \<and> i < MAX_WIFI_CONN_RETRIES \<longrightarrow> \<not> succeeds env i"
    and "rc < MAX_WIFI_CONN_RETRIES"
  shows "ConnectWifi_loop env p rc st =
         (CY_RSLT_ERROR, st\<lparr>conn_params := attempt_params p,
            trace := trace st @ concat (replicate (MAX_WIFI_CONN_RETRIES - 1 - rc) (retry_block p)) @
                     exhausted_block p\<rparr>)"
  using assms
proof (induction "MAX_WIFI_CONN_RETRIES - 1 - rc" arbitrary: rc st)
  case 0
  then have "MAX_WIFI_CONN_RETRIES \<le> rc + 1" by simp
  moreover have "\<not> succeeds env rc" using 0 by simp
  ultimately show ?case using 0 by (simp add: loop_step_exhausted)
next
  case (Suc n)
  let ?st1 = "st\<lparr>conn_params := attempt_params p, trace := trace st @ retry_block p\<rparr>"
  let ?m = "MAX_WIFI_CONN_RETRIES - 1 - (rc + 1)"
  from Suc have lt: "rc + 1 < MAX_WIFI_CONN_RETRIES" by simp
  have f: "\<not> succeeds env rc" using Suc by simp
  have n: "n = ?m" using Suc by simp
  have rep: "concat (replicate (MAX_WIFI_CONN_RETRIES - 1 - rc) (retry_block p)) =
             retry_block p @ concat (replicate ?m (retry_block p))"
  proof -
    have "MAX_WIFI_CONN_RETRIES - 1 - rc = Suc ?m" using lt by simp
    then show ?thesis by (simp only: replicate_Suc concat.simps)
  qed
  have "ConnectWifi_loop env p rc st = ConnectWifi_loop env p (rc + 1) ?st1"
    by (rule loop_step_fail [OF f lt])
  also have "\<dots> = (CY_RSLT_ERROR, ?st1\<lparr>conn_params := attempt_params p,
            trace := trace ?st1 @ concat (replicate ?m (retry_block p)) @ exhausted_block p\<rparr>)"
    using Suc.prems lt by (intro Suc.hyps(1) [OF n]) simp_all
  finally show ?case by (simp only: rep) simp
qed

lemma loop_first_success:
  assumes "\<forall>i. rc \<le> i \<and> i < k \<longrightarrow> \<not> succeeds env i"
    and "succeeds env k" and "rc \<le> k" and "k < MAX_WIFI_CONN_RETRIES"
  shows "ConnectWifi_loop env p rc st =
         (CY_RSLT_SUCCESS, st\<lparr>conn_params := attempt_params p,
            trace := trace st @ concat (replicate (k - rc) (retry_block p)) @
                     success_block p (snd (connect_ap env k))\<rparr>)"
  using assms
proof (induction "k - rc" arbitrary: rc st)
  case 0
  then have "rc = k" by simp
  then show ?case using 0 by (simp add: loop_step_success)
next
  case (Suc n)
  then have lt: "rc + 1 < MAX_WIFI_CONN_RETRIES" and le: "rc + 1 \<le> k" by simp_all
  have f: "\<not> succeeds env rc" using Suc by simp
  have n: "n = k - (rc + 1)" using Suc by simp
  have r: "k - rc = Suc (k - (rc + 1))" using le by simp
  have "ConnectWifi_loop env p (rc + 1) st' =
         (CY_RSLT_SUCCESS, st'\<lparr>conn_params := attempt_params p,
            trace := trace st' @ concat (replicate (k - (rc + 1)) (retry_block p)) @
                     success_block p (snd (connect_ap env k))\<rparr>)" for st'
    using Suc.hyps(1) [OF n] Suc.prems le by simp
  then show ?case
    by (simp add: loop_step_fail [OF f lt] r)
qed

lemma first_success_None:
  "first_success env = None \<longleftrightarrow> (\<forall>i < MAX_WIFI_CONN_RETRIES. \<not> succeeds env i)"
  by (auto simp: first_success_def find_None_iff)

lemma first_success_Some:
  "first_success env = Some k \<longleftrightarrow>
     (k < MAX_WIFI_CONN_RETRIES \<and> succeeds env k \<and> (\<forall>i < k. \<not> succeeds env i))"
  by (auto simp: first_success_def find_Some_iff)

lemma ConnectWifi_run:
  "ConnectWifi env p st =
     (ConnectWifi_result env,
      st\<lparr>conn_params := attempt_params p, trace := trace st @ ConnectWifi_events env p\<rparr>)"
proof (cases "first_success env")
  case None
  then have "\<forall>i. 0 \<le> i \<and> i < MAX_WIFI_CONN_RETRIES \<longrightarrow> \<not> succeeds env i"
    by (simp add: first_success_None)
  moreover have "0 < MAX_WIFI_CONN_RETRIES" by (simp add: MAX_WIFI_CONN_RETRIES_def)
  ultimately show ?thesis using None
    by (simp add: ConnectWifi_def Let_def emit_def loop_all_fail ConnectWifi_result_def
        ConnectWifi_events_def)
next
  case (Some k)
  then have "\<forall>i. 0 \<le> i \<and> i < k \<longrightarrow> \<not> succeeds env i" "succeeds env k" "0 \<le> k"
    "k < MAX_WIFI_CONN_RETRIES"
    by (simp_all add: first_success_Some)
  then show ?thesis using Some
    by (simp add: ConnectWifi_def Let_def emit_def loop_first_success ConnectWifi_result_def
        ConnectWifi_events_def)
qed

section \<open>Counting and placing the events of a run\<close>

lemma new_events_ConnectWifi:
  "new_events st (snd (ConnectWifi env p st)) = ConnectWifi_events env p"
  by (simp add: ConnectWifi_run new_events_def)

lemma count_concat_replicate:
  "length (filter P (concat (replicate n xs))) = n * length (filter P xs)"
  by (induction n) simp_all

lemma associate_calls_events:
  "associate_calls (ConnectWifi_events env p) =
     (case first_success env of None \<Rightarrow> MAX_WIFI_CONN_RETRIES | Some k \<Rightarrow> k + 1)"
  by (simp add: ConnectWifi_events_def associate_calls_def count_concat_replicate
      retry_block_def exhausted_block_def success_block_def MAX_WIFI_CONN_RETRIES_def
      split: option.split)

lemma delays_events:
  "length (filter is_delay (ConnectWifi_events env p)) =
     (case first_success env of None \<Rightarrow> MAX_WIFI_CONN_RETRIES | Some k \<Rightarrow> k + 1)"
  by (simp add: ConnectWifi_events_def count_concat_replicate
      retry_block_def exhausted_block_def success_block_def MAX_WIFI_CONN_RETRIES_def
      split: option.split)

lemma disconnect_calls_events: "disconnect_calls (ConnectWifi_events env p) = 0"
  by (simp add: ConnectWifi_events_def disconnect_calls_def count_concat_replicate
      retry_block_def exhausted_block_def success_block_def split: option.split)

lemma dac_retry_blocks:
  "delay_after_each_connect (concat (replicate n (retry_block p)) @ es) =
     delay_after_each_connect es"
  by (induction n) (simp_all add: retry_block_def)

lemma delay_after_each_connect_events: "delay_after_each_connect (ConnectWifi_events env p)"
  by (simp add: ConnectWifi_events_def dac_retry_blocks exhausted_block_def success_block_def
      split: option.split)

lemma cbd_retry_blocks:
  "connect_before_each_delay False (concat (replicate n (retry_block p)) @ es) =
     connect_before_each_delay False es"
  by (induction n) (simp_all add: retry_block_def)

lemma connect_before_each_delay_events:
  "connect_before_each_delay False (ConnectWifi_events env p)"
  by (simp add: ConnectWifi_events_def cbd_retry_blocks exhausted_block_def success_block_def
      split: option.split)

lemma takeWhile_retry_blocks:
  "takeWhile (\<lambda>e. \<not> is_connect_call e)
     (concat (replicate n (retry_block p)) @ Cy_wcm_connect_ap q # es) = []"
  by (cases n) (simp_all add: retry_block_def)

lemma no_delay_before_first_connect_events:
  "no_delay_before_first_connect (ConnectWifi_events env p)"
  by (simp add: ConnectWifi_events_def no_delay_before_first_connect_def takeWhile_retry_blocks
      exhausted_block_def success_block_def split: option.split)

lemma delay_after_last_connect_events:
  "\<not> no_delay_after_last_connect (ConnectWifi_events env p)"
  by (simp add: ConnectWifi_events_def no_delay_after_last_connect_def
      exhausted_block_def success_block_def split: option.split)

text \<open>
  C2. Whatever the associate calls answer, one run of \<^verbatim>\<open>ConnectWifi\<close> makes at most
  \<^verbatim>\<open>MAX_WIFI_CONN_RETRIES\<close> = 15 of them and returns: with \<^verbatim>\<open>CY_RSLT_ERROR\<close> after
  exactly 15 calls when all 15 fail, and with \<^verbatim>\<open>CY_RSLT_SUCCESS\<close> right at the first
  attempt that succeeds. \<^verbatim>\<open>ConnectWifi\<close> is a total function, so it always returns.
\<close>

theorem ConnectWifi_bounded_retries:
  "associate_calls (new_events st (snd (ConnectWifi env p st))) \<le> MAX_WIFI_CONN_RETRIES \<and>
   MAX_WIFI_CONN_RETRIES = 15 \<and>
   ((\<forall>i < MAX_WIFI_CONN_RETRIES. \<not> succeeds env i) \<longrightarrow>
      fst (ConnectWifi env p st) = CY_RSLT_ERROR \<and>
      associate_calls (new_events st (snd (ConnectWifi env p st))) = MAX_WIFI_CONN_RETRIES) \<and>
   (\<forall>k < MAX_WIFI_CONN_RETRIES. succeeds env k \<and> (\<forall>i < k. \<not> succeeds env i) \<longrightarrow>
      fst (ConnectWifi env p st) = CY_RSLT_SUCCESS \<and>
      associate_calls (new_events st (snd (ConnectWifi env p st))) = k + 1)"
proof -
  have bound: "associate_calls (ConnectWifi_events env p) \<le> MAX_WIFI_CONN_RETRIES"
    by (auto simp: associate_calls_events first_success_Some split: option.split)
  have fail: "ConnectWifi_result env = CY_RSLT_ERROR \<and>
      associate_calls (ConnectWifi_events env p) = MAX_WIFI_CONN_RETRIES"
    if "\<forall>i < MAX_WIFI_CONN_RETRIES. \<not> succeeds env i"
  proof -
    from that have "first_success env = None" by (simp add: first_success_None)
    then show ?thesis by (simp add: ConnectWifi_result_def associate_calls_events)
  qed
  have ok: "ConnectWifi_result env = CY_RSLT_SUCCESS \<and>
      associate_calls (ConnectWifi_events env p) = k + 1"
    if "k < MAX_WIFI_CONN_RETRIES" "succeeds env k" "\<forall>i < k. \<not> succeeds env i" for k
  proof -
    from that have "first_success env = Some k" by (simp add: first_success_Some)
    then show ?thesis by (simp add: ConnectWifi_result_def associate_calls_events)
  qed
  have r: "fst (ConnectWifi env p st) = ConnectWifi_result env"
    by (simp add: ConnectWifi_run)
  show ?thesis
    unfolding new_events_ConnectWifi r
    using bound fail ok by (simp add: MAX_WIFI_CONN_RETRIES_def)
qed

text \<open>The sample worlds: who refuses, who accepts.\<close>

lemma refused_never: "\<forall>i < MAX_WIFI_CONN_RETRIES. \<not> succeeds env_refused i"
  by (simp add: succeeds_def env_refused_def CY_RSLT_SUCCESS_def)

lemma third_succeeds: "succeeds env_third 2 \<and> (\<forall>i < 2. \<not> succeeds env_third i)"
  by (simp add: succeeds_def env_third_def CY_RSLT_SUCCESS_def)

theorem ConnectWifi_bounded_retries_witness:
  "\<not> succeeds env_refused 0 \<and> \<not> succeeds env_refused 14 \<and>
   fst (ConnectWifi env_refused CY_WCM_ITWT_PROFILE_NONE st0) = CY_RSLT_ERROR \<and>
   associate_calls (new_events st0 (snd (ConnectWifi env_refused CY_WCM_ITWT_PROFILE_NONE st0))) = 15 \<and>
   (2::nat) < MAX_WIFI_CONN_RETRIES \<and> succeeds env_third 2 \<and>
   \<not> succeeds env_third 0 \<and> \<not> succeeds env_third 1 \<and>
   fst (ConnectWifi env_third CY_WCM_ITWT_PROFILE_NONE st0) = CY_RSLT_SUCCESS \<and>
   associate_calls (new_events st0 (snd (ConnectWifi env_third CY_WCM_ITWT_PROFILE_NONE st0))) = 3"
proof -
  have two: "(2::nat) < MAX_WIFI_CONN_RETRIES" by (simp add: MAX_WIFI_CONN_RETRIES_def)
  have a: "fst (ConnectWifi env_refused CY_WCM_ITWT_PROFILE_NONE st0) = CY_RSLT_ERROR \<and>
      associate_calls (new_events st0 (snd (ConnectWifi env_refused CY_WCM_ITWT_PROFILE_NONE st0))) =
        MAX_WIFI_CONN_RETRIES"
    using ConnectWifi_bounded_retries [of st0 env_refused CY_WCM_ITWT_PROFILE_NONE] refused_never
    by blast
  have b: "fst (ConnectWifi env_third CY_WCM_ITWT_PROFILE_NONE st0) = CY_RSLT_SUCCESS \<and>
      associate_calls (new_events st0 (snd (ConnectWifi env_third CY_WCM_ITWT_PROFILE_NONE st0))) =
        2 + 1"
    using ConnectWifi_bounded_retries [of st0 env_third CY_WCM_ITWT_PROFILE_NONE] third_succeeds two
    by blast
  from a have a': "fst (ConnectWifi env_refused CY_WCM_ITWT_PROFILE_NONE st0) = CY_RSLT_ERROR \<and>
      associate_calls (new_events st0 (snd (ConnectWifi env_refused CY_WCM_ITWT_PROFILE_NONE st0))) = 15"
    by (simp add: MAX_WIFI_CONN_RETRIES_def)
  from b have b': "fst (ConnectWifi env_third CY_WCM_ITWT_PROFILE_NONE st0) = CY_RSLT_SUCCESS \<and>
      associate_calls (new_events st0 (snd (ConnectWifi env_third CY_WCM_ITWT_PROFILE_NONE st0))) = 3"
    by simp
  have c: "\<not> succeeds env_refused 0 \<and> \<not> succeeds env_refused 14 \<and>
      \<not> succeeds env_third 0 \<and> \<not> succeeds env_third 1"
    by (simp add: succeeds_def env_refused_def env_third_def CY_RSLT_SUCCESS_def)
  show ?thesis
    using a' b' c third_succeeds two by blast
qed

section \<open>Where the delay stands\<close>

lemma fst_ConnectWifi: "fst (ConnectWifi env p st) = ConnectWifi_result env"
  by (simp add: ConnectWifi_run)

lemma events_all_fail:
  assumes "\<forall>i < MAX_WIFI_CONN_RETRIES. \<not> succeeds env i"
  shows "ConnectWifi_events env p =
     (Printf (''Connecting to Wi-Fi Network: '' @ WIFI_SSID @ ''\<newline>'') #
      concat (replicate 14 (retry_block p))) @
     [Cy_wcm_connect_ap (attempt_params p), Cy_rtos_delay_milliseconds 500,
      Printf ''Exceeded max WiFi connection attempts\<newline>'']"
proof -
  from assms have "first_success env = None" by (simp add: first_success_None)
  then show ?thesis
    by (simp add: ConnectWifi_events_def exhausted_block_def MAX_WIFI_CONN_RETRIES_def)
qed

lemma events_first_success:
  assumes "k < MAX_WIFI_CONN_RETRIES" "succeeds env k" "\<forall>i < k. \<not> succeeds env i"
  shows "ConnectWifi_events env p =
     (Printf (''Connecting to Wi-Fi Network: '' @ WIFI_SSID @ ''\<newline>'') #
      concat (replicate k (retry_block p))) @
     [Cy_wcm_connect_ap (attempt_params p), Cy_rtos_delay_milliseconds 500,
      Printf (''Successfully connected to Wi-Fi network '' @ [CHR 0x27] @ WIFI_SSID @
              [CHR 0x27] @ ''.\<newline>''),
      Printf (''IP Address '' @ get_ip_string (snd (connect_ap env k)) @ '' assigned\<newline>'')]"
proof -
  from assms have "first_success env = Some k" by (simp add: first_success_Some)
  then show ?thesis
    by (simp add: ConnectWifi_events_def success_block_def)
qed

text \<open>
  C3, as the code has it. In every run of \<^verbatim>\<open>ConnectWifi\<close> no delay comes before the
  first associate call and every delay directly follows an associate call; but the delay
  is not kept between attempts: one follows the last associate call too. When all 15
  attempts fail, the run ends with the 15th associate call, the delay of 500 ms, and only
  then the report that the attempts are exhausted.
\<close>

theorem ConnectWifi_delay_placement:
  "no_delay_before_first_connect (new_events st (snd (ConnectWifi env p st))) \<and>
   connect_before_each_delay False (new_events st (snd (ConnectWifi env p st))) \<and>
   \<not> no_delay_after_last_connect (new_events st (snd (ConnectWifi env p st))) \<and>
   ((\<forall>i < MAX_WIFI_CONN_RETRIES. \<not> succeeds env i) \<longrightarrow>
      fst (ConnectWifi env p st) = CY_RSLT_ERROR \<and>
      (\<exists>before. new_events st (snd (ConnectWifi env p st)) =
         before @ [Cy_wcm_connect_ap (attempt_params p), Cy_rtos_delay_milliseconds 500,
                   Printf ''Exceeded max WiFi connection attempts\<newline>''] \<and>
         associate_calls before = 14))"
proof -
  have last: "fst (ConnectWifi env p st) = CY_RSLT_ERROR \<and>
      (\<exists>before. ConnectWifi_events env p =
         before @ [Cy_wcm_connect_ap (attempt_params p), Cy_rtos_delay_milliseconds 500,
                   Printf ''Exceeded max WiFi connection attempts\<newline>''] \<and>
         associate_calls before = 14)"
    if h: "\<forall>i < MAX_WIFI_CONN_RETRIES. \<not> succeeds env i"
  proof -
    from h have "first_success env = None" by (simp add: first_success_None)
    then have "fst (ConnectWifi env p st) = CY_RSLT_ERROR"
      by (simp add: fst_ConnectWifi ConnectWifi_result_def)
    moreover have "associate_calls (Printf (''Connecting to Wi-Fi Network: '' @ WIFI_SSID @ ''\<newline>'') #
      concat (replicate 14 (retry_block p))) = 14"
      by (simp add: associate_calls_def count_concat_replicate retry_block_def)
    ultimately show ?thesis using events_all_fail [OF h, of p] by blast
  qed
  show ?thesis
    unfolding new_events_ConnectWifi
    using no_delay_before_first_connect_events [of env p]
      connect_before_each_delay_events [of env p] delay_after_last_connect_events [of env p] last
    by blast
qed

theorem ConnectWifi_delay_placement_witness:
  "no_delay_before_first_connect (new_events st0 (snd (ConnectWifi env_refused CY_WCM_ITWT_PROFILE_IDLE st0))) \<and>
   connect_before_each_delay False (new_events st0 (snd (ConnectWifi env_refused CY_WCM_ITWT_PROFILE_IDLE st0))) \<and>
   \<not> succeeds env_refused 14 \<and>
   fst (ConnectWifi env_refused CY_WCM_ITWT_PROFILE_IDLE st0) = CY_RSLT_ERROR \<and>
   (\<exists>before. new_events st0 (snd (ConnectWifi env_refused CY_WCM_ITWT_PROFILE_IDLE st0)) =
      before @ [Cy_wcm_connect_ap (attempt_params CY_WCM_ITWT_PROFILE_IDLE),
                Cy_rtos_delay_milliseconds 500,
                Printf ''Exceeded max WiFi connection attempts\<newline>''] \<and>
      associate_calls before = 14)"
proof -
  have c: "\<not> succeeds env_refused 14"
    by (simp add: succeeds_def env_refused_def CY_RSLT_SUCCESS_def)
  show ?thesis
    using ConnectWifi_delay_placement [of st0 env_refused CY_WCM_ITWT_PROFILE_IDLE]
      refused_never c
    by blast
qed

text \<open>
  C3 as stated fails: where every associate call is refused, the delay of 500 ms stands
  between the 15th failed call and the report of the error.
\<close>

theorem ConnectWifi_delay_after_last_failure:
  "fst (ConnectWifi env_refused CY_WCM_ITWT_PROFILE_NONE st0) = CY_RSLT_ERROR \<and>
   associate_calls (new_events st0 (snd (ConnectWifi env_refused CY_WCM_ITWT_PROFILE_NONE st0))) = 15 \<and>
   rev (take 3 (rev (new_events st0 (snd (ConnectWifi env_refused CY_WCM_ITWT_PROFILE_NONE st0))))) =
     [Cy_wcm_connect_ap (attempt_params CY_WCM_ITWT_PROFILE_NONE), Cy_rtos_delay_milliseconds 500,
      Printf ''Exceeded max WiFi connection attempts\<newline>''] \<and>
   \<not> no_delay_after_last_connect
       (new_events st0 (snd (ConnectWifi env_refused CY_WCM_ITWT_PROFILE_NONE st0)))"
proof -
  have n: "first_success env_refused = None"
    using refused_never by (simp add: first_success_None)
  have ev: "new_events st0 (snd (ConnectWifi env_refused CY_WCM_ITWT_PROFILE_NONE st0)) =
     (Printf (''Connecting to Wi-Fi Network: '' @ WIFI_SSID @ ''\<newline>'') #
      concat (replicate 14 (retry_block CY_WCM_ITWT_PROFILE_NONE))) @
     [Cy_wcm_connect_ap (attempt_params CY_WCM_ITWT_PROFILE_NONE), Cy_rtos_delay_milliseconds 500,
      Printf ''Exceeded max WiFi connection attempts\<newline>'']"
    unfolding new_events_ConnectWifi by (rule events_all_fail [OF refused_never])
  have "fst (ConnectWifi env_refused CY_WCM_ITWT_PROFILE_NONE st0) = CY_RSLT_ERROR"
    using n by (simp add: fst_ConnectWifi ConnectWifi_result_def)
  moreover have "associate_calls (new_events st0 (snd (ConnectWifi env_refused CY_WCM_ITWT_PROFILE_NONE st0))) = 15"
    unfolding new_events_ConnectWifi using n
    by (simp add: associate_calls_events MAX_WIFI_CONN_RETRIES_def)
  moreover have "rev (take 3 (rev (new_events st0 (snd (ConnectWifi env_refused CY_WCM_ITWT_PROFILE_NONE st0))))) =
     [Cy_wcm_connect_ap (attempt_params CY_WCM_ITWT_PROFILE_NONE), Cy_rtos_delay_milliseconds 500,
      Printf ''Exceeded max WiFi connection attempts\<newline>'']"
    unfolding ev by simp
  moreover have "\<not> no_delay_after_last_connect
       (new_events st0 (snd (ConnectWifi env_refused CY_WCM_ITWT_PROFILE_NONE st0)))"
    unfolding new_events_ConnectWifi by (rule delay_after_last_connect_events)
  ultimately show ?thesis by blast
qed

text \<open>
  C9. In every run of \<^verbatim>\<open>ConnectWifi\<close> each associate call is directly followed by the
  delay of 500 ms, so there are as many delays as calls; after the call that succeeds the
  delay comes first, then the report of success and the address.
\<close>

theorem ConnectWifi_delay_after_every_connect:
  "delay_after_each_connect (new_events st (snd (ConnectWifi env p st))) \<and>
   length (filter is_delay (new_events st (snd (ConnectWifi env p st)))) =
     associate_calls (new_events st (snd (ConnectWifi env p st))) \<and>
   (\<forall>k < MAX_WIFI_CONN_RETRIES. succeeds env k \<and> (\<forall>i < k. \<not> succeeds env i) \<longrightarrow>
      fst (ConnectWifi env p st) = CY_RSLT_SUCCESS \<and>
      (\<exists>before. new_events st (snd (ConnectWifi env p st)) =
         before @
         [Cy_wcm_connect_ap (attempt_params p), Cy_rtos_delay_milliseconds 500,
          Printf (''Successfully connected to Wi-Fi network '' @ [CHR 0x27] @ WIFI_SSID @
                  [CHR 0x27] @ ''.\<newline>''),
          Printf (''IP Address '' @ get_ip_string (snd (connect_ap env k)) @ '' assigned\<newline>'')] \<and>
         associate_calls before = k))"
proof -
  have ok: "fst (ConnectWifi env p st) = CY_RSLT_SUCCESS \<and>
      (\<exists>before. ConnectWifi_events env p =
         before @
         [Cy_wcm_connect_ap (attempt_params p), Cy_rtos_delay_milliseconds 500,
          Printf (''Successfully connected to Wi-Fi network '' @ [CHR 0x27] @ WIFI_SSID @
                  [CHR 0x27] @ ''.\<newline>''),
          Printf (''IP Address '' @ get_ip_string (snd (connect_ap env k)) @ '' assigned\<newline>'')] \<and>
         associate_calls before = k)"
    if h: "k < MAX_WIFI_CONN_RETRIES" "succeeds env k" "\<forall>i < k. \<not> succeeds env i" for k
  proof -
    from h have "first_success env = Some k" by (simp add: first_success_Some)
    then have "fst (ConnectWifi env p st) = CY_RSLT_SUCCESS"
      by (simp add: fst_ConnectWifi ConnectWifi_result_def)
    moreover have "associate_calls (Printf (''Connecting to Wi-Fi Network: '' @ WIFI_SSID @ ''\<newline>'') #
      concat (replicate k (retry_block p))) = k"
      by (simp add: associate_calls_def count_concat_replicate retry_block_def)
    ultimately show ?thesis using events_first_success [OF h, of p] by blast
  qed
  have eq: "length (filter is_delay (ConnectWifi_events env p)) =
     associate_calls (ConnectWifi_events env p)"
    by (simp add: delays_events associate_calls_events)
  show ?thesis
    unfolding new_events_ConnectWifi
    using delay_after_each_connect_events [of env p] eq ok
    by blast
qed

theorem ConnectWifi_delay_after_every_connect_witness:
  "delay_after_each_connect (new_events st0 (snd (ConnectWifi env_third CY_WCM_ITWT_PROFILE_ACTIVE st0))) \<and>
   succeeds env_third 2 \<and> \<not> succeeds env_third 0 \<and> \<not> succeeds env_third 1 \<and>
   fst (ConnectWifi env_third CY_WCM_ITWT_PROFILE_ACTIVE st0) = CY_RSLT_SUCCESS \<and>
   (\<exists>before. new_events st0 (snd (ConnectWifi env_third CY_WCM_ITWT_PROFILE_ACTIVE st0)) =
      before @
      [Cy_wcm_connect_ap (attempt_params CY_WCM_ITWT_PROFILE_ACTIVE), Cy_rtos_delay_milliseconds 500,
       Printf (''Successfully connected to Wi-Fi network '' @ [CHR 0x27] @ WIFI_SSID @
               [CHR 0x27] @ ''.\<newline>''),
       Printf (''IP Address '' @ get_ip_string (snd (connect_ap env_third 2)) @ '' assigned\<newline>'')] \<and>
      associate_calls before = 2)"
proof -
  have two: "(2::nat) < MAX_WIFI_CONN_RETRIES" by (simp add: MAX_WIFI_CONN_RETRIES_def)
  have c: "\<not> succeeds env_third 0 \<and> \<not> succeeds env_third 1"
    by (simp add: succeeds_def env_third_def CY_RSLT_SUCCESS_def)
  show ?thesis
    using ConnectWifi_delay_after_every_connect [of st0 env_third CY_WCM_ITWT_PROFILE_ACTIVE]
      third_succeeds two c
    by blast
qed

section \<open>itwt_setup\<close>

lemma associate_calls_events_pos: "1 \<le> associate_calls (ConnectWifi_events env p)"
  by (simp add: associate_calls_events MAX_WIFI_CONN_RETRIES_def split: option.split)

lemma itwt_setup_profile_valid:
  assumes "1 < length argv" "argv ! 1 = ''idle'' \<or> argv ! 1 = ''active''"
  shows "\<exists>prof. itwt_setup_profile env argv st =
           (Inr (sint (ConnectWifi_result env)),
            st\<lparr>conn_params := attempt_params prof, trace := trace st @ ConnectWifi_events env prof\<rparr>)"
  using assms by (auto simp: itwt_setup_profile_def ConnectWifi_run)

lemma itwt_setup_profile_invalid:
  assumes "1 < length argv" "argv ! 1 \<noteq> ''idle''" "argv ! 1 \<noteq> ''active''"
  shows "itwt_setup_profile env argv st =
           (Inr (- 1), st\<lparr>trace := trace st @ [Printf ''Invalid Profile\<newline>'']\<rparr>)"
  using assms by (simp add: itwt_setup_profile_def emit_def)

text \<open>The guard of the handler fires only below one argument.\<close>

lemma itwt_setup_argc_guard:
  "argc < 1 \<Longrightarrow>
   itwt_setup env argc argv st =
     (Inr (- 1),
      st\<lparr>trace := trace st @
        [Printf ''Insufficient number of arguments. Command format: itwt_setup <profile>\<newline>'']\<rparr>)"
  by (simp add: itwt_setup_def emit_def)

lemma itwt_setup_disconnect_fails:
  assumes "1 \<le> argc" "is_connected_to_ap env" "disconnect_ap env \<noteq> CY_RSLT_SUCCESS"
  shows "fst (itwt_setup env argc argv st) = Inr (sint (disconnect_ap env)) \<and>
         new_events st (snd (itwt_setup env argc argv st)) =
           [Cy_wcm_is_connected_to_ap, Printf ''Already connected. Disconnecting from AP!!\<newline>'',
            Cy_wcm_disconnect_ap,
            Printf (''Failed to disconnect from AP! Error code: 0x'' @ fmt_08x (disconnect_ap env) @
                    ''\<newline>'')]"
  using assms by (simp add: itwt_setup_def Let_def emit_def new_events_def)

lemma itwt_setup_disconnect_ok:
  assumes "1 \<le> argc" "is_connected_to_ap env" "disconnect_ap env = CY_RSLT_SUCCESS"
  shows "itwt_setup env argc argv st =
           itwt_setup_profile env argv
             (st\<lparr>trace := trace st @
                [Cy_wcm_is_connected_to_ap,
                 Printf ''Already connected. Disconnecting from AP!!\<newline>'',
                 Cy_wcm_disconnect_ap]\<rparr>)"
  using assms by (simp add: itwt_setup_def Let_def emit_def)

lemma itwt_setup_not_connected:
  assumes "1 \<le> argc" "\<not> is_connected_to_ap env"
  shows "itwt_setup env argc argv st =
           itwt_setup_profile env argv (st\<lparr>trace := trace st @ [Cy_wcm_is_connected_to_ap]\<rparr>)"
  using assms by (simp add: itwt_setup_def Let_def emit_def)

text \<open>
  C4. \<^verbatim>\<open>itwt_setup\<close> called with its own name and a valid profile token (so \<open>argc\<close> is at
  least 1 and \<^verbatim>\<open>argv[1]\<close> is there). If the station is connected, disconnect is called
  exactly once and no associate call comes before it; if that disconnect fails, no associate
  call is made at all and the handler returns the 32 bits of the disconnect code. If the
  station is not connected, disconnect is never called. Where the run goes on to
  \<^verbatim>\<open>ConnectWifi\<close>, at least one associate call is made.
\<close>

theorem itwt_setup_disconnects_before_connect:
  assumes "1 \<le> argc" and "1 < length argv" and "argv ! 1 = ''idle'' \<or> argv ! 1 = ''active''"
  shows
    "(is_connected_to_ap env \<longrightarrow>
        disconnect_calls (new_events st (snd (itwt_setup env argc argv st))) = 1 \<and>
        associate_calls (takeWhile (\<lambda>e. \<not> is_disconnect_call e)
          (new_events st (snd (itwt_setup env argc argv st)))) = 0) \<and>
     (is_connected_to_ap env \<and> disconnect_ap env \<noteq> CY_RSLT_SUCCESS \<longrightarrow>
        associate_calls (new_events st (snd (itwt_setup env argc argv st))) = 0 \<and>
        fst (itwt_setup env argc argv st) = Inr (sint (disconnect_ap env)) \<and>
        word_of_int (sint (disconnect_ap env)) = disconnect_ap env) \<and>
     (is_connected_to_ap env \<and> disconnect_ap env = CY_RSLT_SUCCESS \<longrightarrow>
        1 \<le> associate_calls (new_events st (snd (itwt_setup env argc argv st)))) \<and>
     (\<not> is_connected_to_ap env \<longrightarrow>
        disconnect_calls (new_events st (snd (itwt_setup env argc argv st))) = 0 \<and>
        1 \<le> associate_calls (new_events st (snd (itwt_setup env argc argv st))))"
proof (cases "is_connected_to_ap env")
  case False
  obtain prof where
    "new_events st (snd (itwt_setup env argc argv st)) =
       Cy_wcm_is_connected_to_ap # ConnectWifi_events env prof"
    using itwt_setup_profile_valid [OF assms(2,3), of env
        "st\<lparr>trace := trace st @ [Cy_wcm_is_connected_to_ap]\<rparr>"]
    by (auto simp: itwt_setup_not_connected [OF assms(1) False] new_events_def)
  then show ?thesis
    using False associate_calls_events_pos [of env prof] disconnect_calls_events [of env prof]
    by (simp add: disconnect_calls_def associate_calls_def)
next
  case True
  show ?thesis
  proof (cases "disconnect_ap env = CY_RSLT_SUCCESS")
    case ok: True
    obtain prof where
      "new_events st (snd (itwt_setup env argc argv st)) =
         [Cy_wcm_is_connected_to_ap, Printf ''Already connected. Disconnecting from AP!!\<newline>'',
          Cy_wcm_disconnect_ap] @ ConnectWifi_events env prof"
      using itwt_setup_profile_valid [OF assms(2,3), of env
          "st\<lparr>trace := trace st @
                [Cy_wcm_is_connected_to_ap,
                 Printf ''Already connected. Disconnecting from AP!!\<newline>'',
                 Cy_wcm_disconnect_ap]\<rparr>"]
      by (auto simp: itwt_setup_disconnect_ok [OF assms(1) True ok] new_events_def)
    then show ?thesis
      using True ok associate_calls_events_pos [of env prof] disconnect_calls_events [of env prof]
      by (simp add: disconnect_calls_def associate_calls_def)
  next
    case bad: False
    show ?thesis
      using True bad itwt_setup_disconnect_fails [OF assms(1) True bad, of argv st]
      by (simp add: disconnect_calls_def associate_calls_def)
  qed
qed

theorem itwt_setup_disconnects_before_connect_witness:
  "is_connected_to_ap env_stuck \<and> disconnect_ap env_stuck \<noteq> CY_RSLT_SUCCESS \<and>
   disconnect_calls (new_events st0 (snd (itwt_setup env_stuck 2 [''itwt_setup'', ''idle''] st0))) = 1 \<and>
   associate_calls (new_events st0 (snd (itwt_setup env_stuck 2 [''itwt_setup'', ''idle''] st0))) = 0 \<and>
   fst (itwt_setup env_stuck 2 [''itwt_setup'', ''idle''] st0) = Inr 42 \<and>
   is_connected_to_ap env_refused \<and> disconnect_ap env_refused = CY_RSLT_SUCCESS \<and>
   disconnect_calls (new_events st0 (snd (itwt_setup env_refused 2 [''itwt_setup'', ''active''] st0))) = 1 \<and>
   1 \<le> associate_calls (new_events st0 (snd (itwt_setup env_refused 2 [''itwt_setup'', ''active''] st0))) \<and>
   \<not> is_connected_to_ap env_third \<and>
   disconnect_calls (new_events st0 (snd (itwt_setup env_third 2 [''itwt_setup'', ''active''] st0))) = 0 \<and>
   1 \<le> associate_calls (new_events st0 (snd (itwt_setup env_third 2 [''itwt_setup'', ''active''] st0)))"
proof -
  have s: "is_connected_to_ap env_stuck \<and> disconnect_ap env_stuck \<noteq> CY_RSLT_SUCCESS \<and>
      sint (disconnect_ap env_stuck) = 42"
    by (simp add: env_stuck_def CY_RSLT_SUCCESS_def)
  have r: "is_connected_to_ap env_refused \<and> disconnect_ap env_refused = CY_RSLT_SUCCESS"
    by (simp add: env_refused_def CY_RSLT_SUCCESS_def)
  have t: "\<not> is_connected_to_ap env_third" by (simp add: env_third_def)
  have a: "(1::int) \<le> 2" "1 < length [''itwt_setup'', ''idle'']"
    "[''itwt_setup'', ''idle''] ! 1 = ''idle'' \<or> [''itwt_setup'', ''idle''] ! 1 = ''active''"
    "1 < length [''itwt_setup'', ''active'']"
    "[''itwt_setup'', ''active''] ! 1 = ''idle'' \<or> [''itwt_setup'', ''active''] ! 1 = ''active''"
    by simp_all
  show ?thesis
    using itwt_setup_disconnects_before_connect [OF a(1) a(2) a(3), where env = env_stuck and st = st0]
      itwt_setup_disconnects_before_connect [OF a(1) a(4) a(5), where env = env_refused and st = st0]
      itwt_setup_disconnects_before_connect [OF a(1) a(4) a(5), where env = env_third and st = st0]
      s r t
    by metis
qed

text \<open>
  C1, as the code has it. With a profile token that is neither \<^verbatim>\<open>active\<close> nor \<^verbatim>\<open>idle\<close>
  the handler never makes an associate call. The token is looked at only after the
  disconnect step: a station that is not connected gets -1 and no disconnect call; a
  connected station is disconnected first (one call), and the handler then returns -1,
  or the disconnect code if the disconnect failed.
\<close>

theorem itwt_setup_invalid_profile:
  assumes "1 \<le> argc" and "1 < length argv" and "argv ! 1 \<noteq> ''active''" and "argv ! 1 \<noteq> ''idle''"
  shows
    "associate_calls (new_events st (snd (itwt_setup env argc argv st))) = 0 \<and>
     (\<not> is_connected_to_ap env \<longrightarrow>
        fst (itwt_setup env argc argv st) = Inr (- 1) \<and>
        disconnect_calls (new_events st (snd (itwt_setup env argc argv st))) = 0) \<and>
     (is_connected_to_ap env \<longrightarrow>
        disconnect_calls (new_events st (snd (itwt_setup env argc argv st))) = 1) \<and>
     (is_connected_to_ap env \<and> disconnect_ap env = CY_RSLT_SUCCESS \<longrightarrow>
        fst (itwt_setup env argc argv st) = Inr (- 1)) \<and>
     (is_connected_to_ap env \<and> disconnect_ap env \<noteq> CY_RSLT_SUCCESS \<longrightarrow>
        fst (itwt_setup env argc argv st) = Inr (sint (disconnect_ap env)))"
proof (cases "is_connected_to_ap env")
  case False
  then show ?thesis
    by (simp add: itwt_setup_not_connected [OF assms(1) False]
        itwt_setup_profile_invalid [OF assms(2) assms(4) assms(3)] new_events_def
        associate_calls_def disconnect_calls_def)
next
  case True
  show ?thesis
  proof (cases "disconnect_ap env = CY_RSLT_SUCCESS")
    case ok: True
    then show ?thesis using True
      by (simp add: itwt_setup_disconnect_ok [OF assms(1) True ok]
          itwt_setup_profile_invalid [OF assms(2) assms(4) assms(3)] new_events_def
          associate_calls_def disconnect_calls_def)
  next
    case bad: False
    show ?thesis
      using True bad itwt_setup_disconnect_fails [OF assms(1) True bad, of argv st]
      by (simp add: disconnect_calls_def associate_calls_def)
  qed
qed

theorem itwt_setup_invalid_profile_witness:
  "\<not> is_connected_to_ap env_third \<and>
   associate_calls (new_events st0 (snd (itwt_setup env_third 2 [''itwt_setup'', ''bogus''] st0))) = 0 \<and>
   disconnect_calls (new_events st0 (snd (itwt_setup env_third 2 [''itwt_setup'', ''bogus''] st0))) = 0 \<and>
   fst (itwt_setup env_third 2 [''itwt_setup'', ''bogus''] st0) = Inr (- 1) \<and>
   is_connected_to_ap env_refused \<and>
   associate_calls (new_events st0 (snd (itwt_setup env_refused 2 [''itwt_setup'', ''bogus''] st0))) = 0 \<and>
   disconnect_calls (new_events st0 (snd (itwt_setup env_refused 2 [''itwt_setup'', ''bogus''] st0))) = 1 \<and>
   fst (itwt_setup env_refused 2 [''itwt_setup'', ''bogus''] st0) = Inr (- 1)"
proof -
  have r: "is_connected_to_ap env_refused \<and> disconnect_ap env_refused = CY_RSLT_SUCCESS"
    by (simp add: env_refused_def CY_RSLT_SUCCESS_def)
  have t: "\<not> is_connected_to_ap env_third" by (simp add: env_third_def)
  have a: "(1::int) \<le> 2" "1 < length [''itwt_setup'', ''bogus'']"
    "[''itwt_setup'', ''bogus''] ! 1 \<noteq> ''active''" "[''itwt_setup'', ''bogus''] ! 1 \<noteq> ''idle''"
    by simp_all
  show ?thesis
    using itwt_setup_invalid_profile [OF a, where env = env_third and st = st0]
      itwt_setup_invalid_profile [OF a, where env = env_refused and st = st0] r t
    by metis
qed

text \<open>
  C1 as stated fails for a connected station: with the token \<^verbatim>\<open>bogus\<close> the handler
  calls disconnect once before it reports the invalid profile, and where the disconnect
  fails with code 0x2A it returns 42, not -1.
\<close>

theorem itwt_setup_invalid_profile_disconnects:
  "fst (itwt_setup env_refused 2 [''itwt_setup'', ''bogus''] st0) = Inr (- 1) \<and>
   new_events st0 (snd (itwt_setup env_refused 2 [''itwt_setup'', ''bogus''] st0)) =
     [Cy_wcm_is_connected_to_ap, Printf ''Already connected. Disconnecting from AP!!\<newline>'',
      Cy_wcm_disconnect_ap, Printf ''Invalid Profile\<newline>''] \<and>
   disconnect_calls (new_events st0 (snd (itwt_setup env_refused 2 [''itwt_setup'', ''bogus''] st0))) = 1 \<and>
   fst (itwt_setup env_stuck 2 [''itwt_setup'', ''bogus''] st0) = Inr 42 \<and>
   disconnect_calls (new_events st0 (snd (itwt_setup env_stuck 2 [''itwt_setup'', ''bogus''] st0))) = 1"
  by (simp add: itwt_setup_def itwt_setup_profile_def Let_def emit_def new_events_def
      env_refused_def env_stuck_def st0_def CY_RSLT_SUCCESS_def disconnect_calls_def)

lemma itwt_setup_no_fault:
  assumes "1 < length argv"
  shows "fst (itwt_setup env argc argv st) \<noteq> Inl Argv_read_out_of_bounds"
  using assms
  by (simp add: itwt_setup_def itwt_setup_profile_def Let_def split: prod.split)

lemma dispatch_itwt_setup:
  "dispatch env itwt_commands_table (''itwt_setup'' # args) st =
     Some (if args = [] then (Inr (- 1), st)
           else itwt_setup env (1 + int (length args)) (''itwt_setup'' # args) st)"
  by (cases args) (simp_all add: dispatch_def itwt_commands_table_def run_handler_def)

text \<open>
  C7. The command \<^verbatim>\<open>itwt_setup\<close> is registered with a declared minimum of one argument.
  A line with fewer arguments, that is the name alone, is answered by the dispatcher with
  -1 and an unchanged state: the handler does not run, so there is no disconnect call, no
  associate call and no read of the profile argument. Whenever the dispatcher does run
  the handler, \<^verbatim>\<open>argv[1]\<close> is there and the handler never reads outside \<^verbatim>\<open>argv\<close>. The
  handler's own guard, \<^verbatim>\<open>argc < 1\<close>, also returns -1 with no disconnect or associate
  call and without looking at \<^verbatim>\<open>argv\<close>.
\<close>

theorem dispatch_itwt_setup_insufficient_args:
  "find (\<lambda>entry. fst entry = ''itwt_setup'') itwt_commands_table =
     Some (''itwt_setup'', Handler_itwt_setup, 1) \<and>
   dispatch env itwt_commands_table [''itwt_setup''] st = Some (Inr (- 1), st) \<and>
   (args \<noteq> [] \<longrightarrow>
      dispatch env itwt_commands_table (''itwt_setup'' # args) st =
        Some (itwt_setup env (1 + int (length args)) (''itwt_setup'' # args) st) \<and>
      fst (itwt_setup env (1 + int (length args)) (''itwt_setup'' # args) st) \<noteq>
        Inl Argv_read_out_of_bounds) \<and>
   (argc < 1 \<longrightarrow>
      fst (itwt_setup env argc argv st) = Inr (- 1) \<and>
      associate_calls (new_events st (snd (itwt_setup env argc argv st))) = 0 \<and>
      disconnect_calls (new_events st (snd (itwt_setup env argc argv st))) = 0 \<and>
      itwt_setup env argc argv st = itwt_setup env argc [] st)"
proof -
  have entry: "find (\<lambda>entry. fst entry = ''itwt_setup'') itwt_commands_table =
     Some (''itwt_setup'', Handler_itwt_setup, 1)"
    by (simp add: itwt_commands_table_def)
  have alone: "dispatch env itwt_commands_table [''itwt_setup''] st = Some (Inr (- 1), st)"
    by (simp add: dispatch_itwt_setup)
  have run: "dispatch env itwt_commands_table (''itwt_setup'' # args) st =
        Some (itwt_setup env (1 + int (length args)) (''itwt_setup'' # args) st) \<and>
      fst (itwt_setup env (1 + int (length args)) (''itwt_setup'' # args) st) \<noteq>
        Inl Argv_read_out_of_bounds"
    if "args \<noteq> []"
  proof -
    from that have "1 < length (''itwt_setup'' # args)" by (cases args) simp_all
    then show ?thesis using that by (simp add: dispatch_itwt_setup itwt_setup_no_fault)
  qed
  have guard: "fst (itwt_setup env argc argv st) = Inr (- 1) \<and>
      associate_calls (new_events st (snd (itwt_setup env argc argv st))) = 0 \<and>
      disconnect_calls (new_events st (snd (itwt_setup env argc argv st))) = 0 \<and>
      itwt_setup env argc argv st = itwt_setup env argc [] st"
    if "argc < 1"
    using that
    by (simp add: itwt_setup_argc_guard new_events_def associate_calls_def disconnect_calls_def)
  show ?thesis using entry alone run guard by blast
qed

theorem dispatch_itwt_setup_insufficient_args_witness:
  "dispatch env_refused itwt_commands_table [''itwt_setup''] st0 = Some (Inr (- 1), st0) \<and>
   dispatch env_stuck itwt_commands_table [''itwt_setup'', ''idle''] st0 =
     Some (itwt_setup env_stuck 2 [''itwt_setup'', ''idle''] st0) \<and>
   fst (itwt_setup env_stuck 2 [''itwt_setup'', ''idle''] st0) \<noteq> Inl Argv_read_out_of_bounds \<and>
   fst (itwt_setup env_refused 0 [] st0) = Inr (- 1) \<and>
   disconnect_calls (new_events st0 (snd (itwt_setup env_refused 0 [] st0))) = 0"
proof -
  have a: "[''idle''] \<noteq> []" "(0::int) < 1" "1 + int (length [''idle'']) = 2" by simp_all
  show ?thesis
    using dispatch_itwt_setup_insufficient_args
        [where env = env_refused and st = st0 and args = "[''idle'']" and argc = 0 and argv = "[]"]
      dispatch_itwt_setup_insufficient_args
        [where env = env_stuck and st = st0 and args = "[''idle'']" and argc = 0 and argv = "[]"]
      a
    by metis
qed

section \<open>The address a successful run prints\<close>

lemma below_ten: "d < 10 \<Longrightarrow> d \<in> {0, 1, 2, 3, 4, 5, 6, 7, 8, 9 :: nat}"
  by auto

lemma is_digit_digit_char: "d < 10 \<Longrightarrow> is_digit (digit_char d)"
  by (drule below_ten) (auto simp: is_digit_def digit_char_def)

lemma digit_value_digit_char: "d < 10 \<Longrightarrow> digit_value (digit_char d) = d"
  by (drule below_ten) (auto simp: digit_value_def digit_char_def)

lemma is_digit_not_dot: "is_digit c \<Longrightarrow> c \<noteq> CHR ''.''"
  by (auto simp: is_digit_def)

lemma fmt_lu_digits: "list_all is_digit (fmt_lu n)"
proof (induction n rule: fmt_lu.induct)
  case (1 n)
  show ?case
  proof (cases "n < 10")
    case True
    then show ?thesis by (simp add: fmt_lu.simps [of n] is_digit_digit_char)
  next
    case False
    then show ?thesis using 1 by (simp add: fmt_lu.simps [of n] is_digit_digit_char)
  qed
qed

lemma dec_value_snoc: "dec_value (s @ [c]) = 10 * dec_value s + digit_value c"
  by (simp add: dec_value_def)

lemma dec_value_fmt_lu: "dec_value (fmt_lu n) = n"
proof (induction n rule: fmt_lu.induct)
  case (1 n)
  show ?case
  proof (cases "n < 10")
    case True
    then show ?thesis
      by (simp add: fmt_lu.simps [of n] dec_value_def digit_value_digit_char)
  next
    case False
    then have "dec_value (fmt_lu (n div 10)) = n div 10" using 1 by simp
    then show ?thesis using False
      by (simp add: fmt_lu.simps [of n] dec_value_snoc digit_value_digit_char)
  qed
qed

lemma fmt_lu_no_dot: "CHR ''.'' \<notin> set (fmt_lu n)"
  using fmt_lu_digits [of n] is_digit_not_dot by (auto simp: list_all_iff)

lemma split_dots_no_dot: "CHR ''.'' \<notin> set xs \<Longrightarrow> split_dots xs = [xs]"
  by (induction xs) auto

lemma split_dots_field:
  "CHR ''.'' \<notin> set xs \<Longrightarrow> split_dots (xs @ CHR ''.'' # ys) = xs # split_dots ys"
  by (induction xs) auto

lemma split_dots_get_ip_string:
  "split_dots (get_ip_string ip) =
     [fmt_lu (unat (ip AND 0xFF)), fmt_lu (unat (drop_bit 8 ip AND 0xFF)),
      fmt_lu (unat (drop_bit 16 ip AND 0xFF)), fmt_lu (unat (drop_bit 24 ip AND 0xFF))]"
  by (simp add: get_ip_string_def split_dots_field split_dots_no_dot fmt_lu_no_dot)

lemma valid_field_fmt_lu: "valid_field (fmt_lu (unat ((w :: 32 word) AND 0xFF)))"
  using length_fmt_lu_pos [of "unat (w AND 0xFF)"] unat_and_255 [of w]
  by (simp add: valid_field_def fmt_lu_digits dec_value_fmt_lu)

text \<open>
  C6. For every 32-bit address the string of \<^verbatim>\<open>get_ip_string\<close> splits at its dots into
  exactly four fields, each a non-empty run of decimal digits that reads as a number of at
  most 255; the four numbers are the four bytes of the address, lowest first. A run of
  \<^verbatim>\<open>ConnectWifi\<close> in which an attempt succeeds prints, as its last message, that string for
  the address the successful associate call stored.
\<close>

theorem get_ip_string_dotted_quad:
  "is_dotted_quad (get_ip_string ip) \<and>
   map dec_value (split_dots (get_ip_string ip)) =
     [unat ip mod 256, unat ip div 2 ^ 8 mod 256, unat ip div 2 ^ 16 mod 256,
      unat ip div 2 ^ 24 mod 256] \<and>
   (\<forall>k < MAX_WIFI_CONN_RETRIES. succeeds env k \<and> (\<forall>i < k. \<not> succeeds env i) \<longrightarrow>
      fst (ConnectWifi env p st) = CY_RSLT_SUCCESS \<and>
      last (trace (snd (ConnectWifi env p st))) =
        Printf (''IP Address '' @ get_ip_string (snd (connect_ap env k)) @ '' assigned\<newline>''))"
proof -
  have quad: "is_dotted_quad (get_ip_string ip)"
    by (simp add: is_dotted_quad_def split_dots_get_ip_string valid_field_fmt_lu)
  have vals: "map dec_value (split_dots (get_ip_string ip)) =
     [unat ip mod 256, unat ip div 2 ^ 8 mod 256, unat ip div 2 ^ 16 mod 256,
      unat ip div 2 ^ 24 mod 256]"
    using unat_byte [of 0 ip] unat_byte [of 8 ip] unat_byte [of 16 ip] unat_byte [of 24 ip]
    by (simp add: split_dots_get_ip_string dec_value_fmt_lu)
  have printed: "fst (ConnectWifi env p st) = CY_RSLT_SUCCESS \<and>
      last (trace (snd (ConnectWifi env p st))) =
        Printf (''IP Address '' @ get_ip_string (snd (connect_ap env k)) @ '' assigned\<newline>'')"
    if h: "k < MAX_WIFI_CONN_RETRIES" "succeeds env k" "\<forall>i < k. \<not> succeeds env i" for k
  proof -
    from h have "first_success env = Some k" by (simp add: first_success_Some)
    then have "fst (ConnectWifi env p st) = CY_RSLT_SUCCESS"
      by (simp add: fst_ConnectWifi ConnectWifi_result_def)
    moreover have "last (trace (snd (ConnectWifi env p st))) =
        Printf (''IP Address '' @ get_ip_string (snd (connect_ap env k)) @ '' assigned\<newline>'')"
      by (simp add: ConnectWifi_run events_first_success [OF h])
    ultimately show ?thesis by simp
  qed
  show ?thesis using quad vals printed by blast
qed

theorem get_ip_string_dotted_quad_witness:
  "is_dotted_quad (get_ip_string 0x0A01A8C0) \<and>
   succeeds env_third 2 \<and> \<not> succeeds env_third 0 \<and> \<not> succeeds env_third 1 \<and>
   snd (connect_ap env_third 2) = 0x0A01A8C0 \<and>
   fst (ConnectWifi env_third CY_WCM_ITWT_PROFILE_IDLE st0) = CY_RSLT_SUCCESS \<and>
   last (trace (snd (ConnectWifi env_third CY_WCM_ITWT_PROFILE_IDLE st0))) =
     Printf (''IP Address '' @ get_ip_string (snd (connect_ap env_third 2)) @ '' assigned\<newline>'')"
proof -
  have two: "(2::nat) < MAX_WIFI_CONN_RETRIES" by (simp add: MAX_WIFI_CONN_RETRIES_def)
  have c: "\<not> succeeds env_third 0 \<and> \<not> succeeds env_third 1 \<and>
      snd (connect_ap env_third 2) = 0x0A01A8C0"
    by (simp add: succeeds_def env_third_def CY_RSLT_SUCCESS_def)
  show ?thesis
    using get_ip_string_dotted_quad [of "0x0A01A8C0" env_third CY_WCM_ITWT_PROFILE_IDLE st0]
      third_succeeds two c
    by blast
qed

lemma get_ip_string_example: "get_ip_string 0x0A01A8C0 = ''192.168.1.10''"
  by code_simp

section \<open>itwt_teardown\<close>

text \<open>
  C5. Every call of \<^verbatim>\<open>itwt_teardown\<close> issues exactly one teardown request, on the station
  interface, with negotiation type 0, flow id 0, broadcast id 0 and the teardown-all flag 0,
  and makes no associate or disconnect call. It returns the 32 bits of the service's result
  code, whatever the code is. The connection parameters are neither read nor written, and
  the association state and the arguments play no part.
\<close>

theorem itwt_teardown_fixed_request:
  "fst (itwt_teardown env argc argv st) = sint (twt_teardown env) \<and>
   word_of_int (fst (itwt_teardown env argc argv st)) = twt_teardown env \<and>
   filter is_teardown_call (new_events st (snd (itwt_teardown env argc argv st))) =
     [Whd_wifi_twt_teardown CY_WCM_INTERFACE_TYPE_STA
        \<lparr>negotiation_type = 0, flow_id = 0, bcast_twt_id = 0, teardown_all_twt = 0\<rparr>] \<and>
   teardown_calls (new_events st (snd (itwt_teardown env argc argv st))) = 1 \<and>
   hd (new_events st (snd (itwt_teardown env argc argv st))) =
     Whd_wifi_twt_teardown CY_WCM_INTERFACE_TYPE_STA
        \<lparr>negotiation_type = 0, flow_id = 0, bcast_twt_id = 0, teardown_all_twt = 0\<rparr> \<and>
   associate_calls (new_events st (snd (itwt_teardown env argc argv st))) = 0 \<and>
   disconnect_calls (new_events st (snd (itwt_teardown env argc argv st))) = 0 \<and>
   conn_params (snd (itwt_teardown env argc argv st)) = conn_params st \<and>
   itwt_teardown (env\<lparr>is_connected_to_ap := c\<rparr>) argc' argv' (st\<lparr>conn_params := cp\<rparr>) =
     (fst (itwt_teardown env argc argv st),
      (snd (itwt_teardown env argc argv st))\<lparr>conn_params := cp\<rparr>)"
  by (simp add: itwt_teardown_def Let_def emit_def new_events_def teardown_calls_def
      associate_calls_def disconnect_calls_def TWT_CTRL_NEGO_TYPE_0_def)

theorem itwt_teardown_fixed_request_witness:
  "twt_teardown env_refused = 0x5678 \<and>
   fst (itwt_teardown env_refused 1 [''itwt_teardown''] st0) = 0x5678 \<and>
   teardown_calls (new_events st0 (snd (itwt_teardown env_refused 1 [''itwt_teardown''] st0))) = 1"
proof -
  have "twt_teardown env_refused = 0x5678 \<and> sint (twt_teardown env_refused) = 0x5678"
    by (simp add: env_refused_def)
  then show ?thesis
    using itwt_teardown_fixed_request [of env_refused 1 "[''itwt_teardown'']" st0]
    by simp
qed

section \<open>The liveness timer\<close>

lemma idle_loop_trace:
  "idle_loop n st = st\<lparr>trace := trace st @ replicate n (Cy_rtos_delay_milliseconds 500)\<rparr>"
  by (induction n arbitrary: st) (simp_all add: emit_def replicate_app_Cons_same)

lemma command_console_add_command_trace:
  "\<exists>evs. trace (snd (command_console_add_command env st)) = trace st @ evs"
  by (simp add: command_console_add_command_def Let_def emit_def)

text \<open>
  C8. A tick of the liveness timer, \<^verbatim>\<open>wdt_handler\<close>, makes one call,
  \<^verbatim>\<open>thread_ap_watchdog_ConfigureTime(5)\<close>, and changes nothing else: the connection
  parameters are left as they were and are not read, and the handler has no access to the
  answers of the connection service. The console task registers the handler as a periodic
  timer and starts it with \<^verbatim>\<open>WDT_TIMEOUT_MS\<close> = 4000.
\<close>

theorem wdt_handler_frame:
  "wdt_handler arg st = st\<lparr>trace := trace st @ [Thread_ap_watchdog_ConfigureTime 5]\<rparr> \<and>
   new_events st (wdt_handler arg st) = [Thread_ap_watchdog_ConfigureTime 5] \<and>
   conn_params (wdt_handler arg st) = conn_params st \<and>
   wcm_config_interface (wdt_handler arg st) = wcm_config_interface st \<and>
   wdt_handler arg (st\<lparr>conn_params := cp\<rparr>) = (wdt_handler arg st)\<lparr>conn_params := cp\<rparr> \<and>
   WDT_TIMEOUT_MS = 4000 \<and>
   (wcm_init env = CY_RSLT_SUCCESS \<longrightarrow>
      (\<exists>before. new_events st (snd (console_task env n st)) =
         before @
         [Cy_rtos_init_timer CY_TIMER_TYPE_PERIODIC Callback_wdt_handler 0,
          Cy_rtos_start_timer 4000, Thread_ap_watchdog_ConfigureTime 5] @
         replicate n (Cy_rtos_delay_milliseconds 500)))"
proof -
  have frame: "wdt_handler arg st = st\<lparr>trace := trace st @ [Thread_ap_watchdog_ConfigureTime 5]\<rparr>"
    by (simp add: wdt_handler_def emit_def)
  have task: "\<exists>before. new_events st (snd (console_task env n st)) =
         before @
         [Cy_rtos_init_timer CY_TIMER_TYPE_PERIODIC Callback_wdt_handler 0,
          Cy_rtos_start_timer 4000, Thread_ap_watchdog_ConfigureTime 5] @
         replicate n (Cy_rtos_delay_milliseconds 500)"
    if ok: "wcm_init env = CY_RSLT_SUCCESS"
  proof -
    let ?st3 = "st\<lparr>wcm_config_interface := CY_WCM_INTERFACE_TYPE_STA,
        trace := trace st @ [Cy_wcm_init CY_WCM_INTERFACE_TYPE_STA,
          Printf ''Wi-Fi Connection Manager initialized.\<newline>'']\<rparr>"
    let ?st4 = "snd (ConnectWifi env CY_WCM_ITWT_PROFILE_NONE ?st3)"
    let ?tail = "[Cy_rtos_init_timer CY_TIMER_TYPE_PERIODIC Callback_wdt_handler 0,
          Cy_rtos_start_timer 4000, Thread_ap_watchdog_ConfigureTime 5] @
         replicate n (Cy_rtos_delay_milliseconds 500)"
    obtain evs where evs: "trace (snd (command_console_add_command env ?st4)) =
        trace ?st4 @ evs"
      using command_console_add_command_trace by blast
    have st4: "trace ?st4 = trace st @ [Cy_wcm_init CY_WCM_INTERFACE_TYPE_STA,
          Printf ''Wi-Fi Connection Manager initialized.\<newline>''] @
          ConnectWifi_events env CY_WCM_ITWT_PROFILE_NONE"
      by (simp add: ConnectWifi_run)
    have "trace (snd (console_task env n st)) =
        trace (snd (command_console_add_command env ?st4)) @ ?tail"
      using ok by (simp add: console_task_def Let_def emit_def idle_loop_trace WDT_TIMEOUT_MS_def)
    then have "trace (snd (console_task env n st)) =
        trace st @ (([Cy_wcm_init CY_WCM_INTERFACE_TYPE_STA,
          Printf ''Wi-Fi Connection Manager initialized.\<newline>''] @
          ConnectWifi_events env CY_WCM_ITWT_PROFILE_NONE @ evs) @ ?tail)"
      by (simp only: evs st4 append_assoc)
    then have "new_events st (snd (console_task env n st)) =
        ([Cy_wcm_init CY_WCM_INTERFACE_TYPE_STA,
          Printf ''Wi-Fi Connection Manager initialized.\<newline>''] @
          ConnectWifi_events env CY_WCM_ITWT_PROFILE_NONE @ evs) @ ?tail"
      by (simp add: new_events_def)
    then show ?thesis by blast
  qed
  have new: "new_events st (wdt_handler arg st) = [Thread_ap_watchdog_ConfigureTime 5]"
    by (simp add: frame new_events_def)
  have kept: "conn_params (wdt_handler arg st) = conn_params st \<and>
      wcm_config_interface (wdt_handler arg st) = wcm_config_interface st"
    by (simp add: frame)
  have blind: "wdt_handler arg (st\<lparr>conn_params := cp\<rparr>) = (wdt_handler arg st)\<lparr>conn_params := cp\<rparr>"
    by (simp add: wdt_handler_def emit_def)
  have period: "WDT_TIMEOUT_MS = 4000" by (simp add: WDT_TIMEOUT_MS_def)
  show ?thesis
    using frame new kept blind period task by blast
qed

theorem wdt_handler_frame_witness:
  "wcm_init env_third = CY_RSLT_SUCCESS \<and>
   new_events st0 (wdt_handler 0 st0) = [Thread_ap_watchdog_ConfigureTime 5] \<and>
   (\<exists>before. new_events st0 (snd (console_task env_third 2 st0)) =
      before @
      [Cy_rtos_init_timer CY_TIMER_TYPE_PERIODIC Callback_wdt_handler 0,
       Cy_rtos_start_timer 4000, Thread_ap_watchdog_ConfigureTime 5] @
      replicate 2 (Cy_rtos_delay_milliseconds 500))"
proof -
  have "wcm_init env_third = CY_RSLT_SUCCESS"
    by (simp add: env_third_def CY_RSLT_SUCCESS_def)
  then show ?thesis
    using wdt_handler_frame [of 0 st0 _ env_third 2] by blast
qed

end
